theory Spec2Isabelle
  imports Main "HOL-Library.Sublist" "HOL-Library.List_Lexorder"
begin

section \<open>Strings of the host language\<close>

text \<open>
  A JavaScript string is a sequence of UTF-16 code units. The model covers the strings whose
  code units are all below 256 (the Latin-1 range): one \<^typ>\<open>char\<close> is one code unit, and
  \<open>length\<close> is the \<open>.length\<close> of the source.
\<close>

text \<open>The class \<open>\s\<close> of a regular expression, which is also what \<open>trim()\<close> removes.\<close>

definition isSpace :: "char \<Rightarrow> bool" where
  "isSpace c \<longleftrightarrow>
     c \<in> {CHR 0x09, CHR 0x0A, CHR 0x0B, CHR 0x0C, CHR 0x0D, CHR 0x20, CHR 0xA0}"

text \<open>The class \<open>\w\<close>, that is \<open>[A-Za-z0-9_]\<close>.\<close>

definition isWordChar :: "char \<Rightarrow> bool" where
  "isWordChar c \<longleftrightarrow>
     (let n = (of_char c :: nat)
      in (48 \<le> n \<and> n \<le> 57) \<or> (65 \<le> n \<and> n \<le> 90) \<or> n = 95 \<or> (97 \<le> n \<and> n \<le> 122))"

text \<open>\<open>String.prototype.toLowerCase\<close> on one code unit of the Latin-1 range.\<close>

definition lowerChar :: "char \<Rightarrow> char" where
  "lowerChar c =
     (let n = (of_char c :: nat)
      in if (65 \<le> n \<and> n \<le> 90) \<or> (192 \<le> n \<and> n \<le> 222 \<and> n \<noteq> 215)
         then char_of (n + 32) else c)"

definition toLowerCase :: "string \<Rightarrow> string" where
  "toLowerCase s = map lowerChar s"

text \<open>\<open>s.includes(t)\<close>: \<open>t\<close> occurs in \<open>s\<close> as a contiguous substring.\<close>

fun includesStr :: "string \<Rightarrow> string \<Rightarrow> bool" where
  "includesStr [] t = (t = [])"
| "includesStr (c # cs) t = (prefix t (c # cs) \<or> includesStr cs t)"

text \<open>
  \<open>s.split(/\s+/)\<close>: the pieces between maximal whitespace runs. A run at the start or at
  the end of the string leaves an empty piece there, and the empty string gives one empty
  piece. The flag says that the previous code unit belonged to a run.
\<close>

fun splitRuns :: "bool \<Rightarrow> string \<Rightarrow> string list" where
  "splitRuns inRun [] = [[]]"
| "splitRuns inRun (c # cs) =
     (if isSpace c then (if inRun then splitRuns True cs else [] # splitRuns True cs)
      else (case splitRuns False cs of
              [] \<Rightarrow> [[c]]
            | t # ts \<Rightarrow> (c # t) # ts))"

definition splitWhitespace :: "string \<Rightarrow> string list" where
  "splitWhitespace s = splitRuns False s"

section \<open>SearchService: the tokenizer\<close>

text \<open>
  \<^verbatim>\<open>generateSearchTerms(content)\<close>:
  \<^verbatim>\<open>content.split(/\s+/).filter(t => t.length > 2).map(t => t.replace(/[^\w]/g, '')).filter(t => t.length > 0)\<close>
\<close>

definition stripNonWord :: "string \<Rightarrow> string" where
  "stripNonWord t = filter isWordChar t"

definition generateSearchTerms :: "string \<Rightarrow> string list" where
  "generateSearchTerms content =
     filter (\<lambda>t. length t > 0)
       (map stripNonWord
         (filter (\<lambda>t. length t > 2) (splitWhitespace content)))"

section \<open>markdownService.extractPlainText\<close>

text \<open>
  \<open>str.replace(re, r)\<close> with a global regular expression: scan from the left; where the
  expression matches, emit the replacement and go on behind the match, otherwise copy one
  code unit. A matcher gets whether the position is at the beginning of a line (for \<open>^\<close>
  under the \<open>m\<close> flag) and the rest of the string, and answers the replacement together with
  the length of the match minus one. None of the expressions below matches the empty string.
\<close>

definition isLineTerminator :: "char \<Rightarrow> bool" where
  "isLineTerminator c \<longleftrightarrow> c = CHR 0x0A \<or> c = CHR 0x0D"

fun replaceAll :: "(bool \<Rightarrow> string \<Rightarrow> (string \<times> nat) option) \<Rightarrow> bool \<Rightarrow> string \<Rightarrow> string" where
  "replaceAll m bol [] = []"
| "replaceAll m bol (c # cs) =
     (case m bol (c # cs) of
        None \<Rightarrow> c # replaceAll m (isLineTerminator c) cs
      | Some (rep, k) \<Rightarrow>
          rep @ replaceAll m (isLineTerminator (last (c # take k cs))) (drop k cs))"

fun findFirst :: "string \<Rightarrow> string \<Rightarrow> nat option" where
  "findFirst pat [] = (if pat = [] then Some 0 else None)"
| "findFirst pat (c # cs) =
     (if prefix pat (c # cs) then Some 0 else map_option Suc (findFirst pat cs))"

fun lastIndexOf :: "char \<Rightarrow> string \<Rightarrow> nat option" where
  "lastIndexOf x [] = None"
| "lastIndexOf x (c # cs) =
     (case lastIndexOf x cs of
        Some j \<Rightarrow> Some (Suc j)
      | None \<Rightarrow> if c = x then Some 0 else None)"

text \<open>\<^verbatim>\<open>/```[\s\S]*?```/g\<close>: a fence, lazily up to the next fence.\<close>

definition matchCodeBlock :: "bool \<Rightarrow> string \<Rightarrow> (string \<times> nat) option" where
  "matchCodeBlock bol s =
     (if prefix ''```'' s
      then (case findFirst ''```'' (drop 3 s) of
              None \<Rightarrow> None
            | Some j \<Rightarrow> Some ([], j + 5))
      else None)"

text \<open>\<^verbatim>\<open>/`[^`]*`/g\<close>\<close>

definition matchInlineCode :: "bool \<Rightarrow> string \<Rightarrow> (string \<times> nat) option" where
  "matchInlineCode bol s =
     (case s of
        [] \<Rightarrow> None
      | c # t \<Rightarrow>
          if c = CHR ''`''
          then (case findFirst ''`'' t of None \<Rightarrow> None | Some j \<Rightarrow> Some ([], j + 1))
          else None)"

text \<open>\<^verbatim>\<open>/\[([^\]]*)\]\([^)]*\)/g\<close>, replaced by its group.\<close>

definition matchLink :: "bool \<Rightarrow> string \<Rightarrow> (string \<times> nat) option" where
  "matchLink bol s =
     (case s of
        [] \<Rightarrow> None
      | c # t \<Rightarrow>
          if c = CHR ''[''
          then (let g = takeWhile (\<lambda>x. x \<noteq> CHR '']'') t
                in case dropWhile (\<lambda>x. x \<noteq> CHR '']'') t of
                     r1 # r2 # u \<Rightarrow>
                       if r2 = CHR ''(''
                       then (let inner = takeWhile (\<lambda>x. x \<noteq> CHR '')'') u
                             in if dropWhile (\<lambda>x. x \<noteq> CHR '')'') u = [] then None
                                else Some (g, length g + length inner + 3))
                       else None
                   | _ \<Rightarrow> None)
          else None)"

text \<open>\<^verbatim>\<open>/!\[([^\]]*)\]\([^)]*\)/g\<close>, replaced by its group.\<close>

definition matchImage :: "bool \<Rightarrow> string \<Rightarrow> (string \<times> nat) option" where
  "matchImage bol s =
     (case s of
        [] \<Rightarrow> None
      | c # t \<Rightarrow>
          if c = CHR ''!''
          then (case matchLink False t of None \<Rightarrow> None | Some (g, k) \<Rightarrow> Some (g, Suc k))
          else None)"

text \<open>\<^verbatim>\<open>/^#{1,6}\s+/gm\<close>\<close>

definition matchHeader :: "bool \<Rightarrow> string \<Rightarrow> (string \<times> nat) option" where
  "matchHeader bol s =
     (let n = length (takeWhile (\<lambda>x. x = CHR ''#'') s);
          w = takeWhile isSpace (drop n s)
      in if bol \<and> 1 \<le> n \<and> n \<le> 6 \<and> w \<noteq> [] then Some ([], n + length w - 1) else None)"

text \<open>
  \<^verbatim>\<open>/[*_]{1,2}([^*_]*)[*_]{1,2}/g\<close>, replaced by its group. The opening takes two markers
  when it can and falls back to one when no closing marker follows the group.
\<close>

definition isMarker :: "char \<Rightarrow> bool" where
  "isMarker c \<longleftrightarrow> c = CHR ''*'' \<or> c = CHR ''_''"

definition emphasisFrom :: "nat \<Rightarrow> string \<Rightarrow> (string \<times> nat) option" where
  "emphasisFrom n s =
     (let g = takeWhile (\<lambda>x. \<not> isMarker x) (drop n s)
      in case dropWhile (\<lambda>x. \<not> isMarker x) (drop n s) of
           [] \<Rightarrow> None
         | m1 # r \<Rightarrow>
             Some (g, n + length g + (case r of [] \<Rightarrow> 1 | m2 # _ \<Rightarrow> if isMarker m2 then 2 else 1) - 1))"

definition matchEmphasis :: "bool \<Rightarrow> string \<Rightarrow> (string \<times> nat) option" where
  "matchEmphasis bol s =
     (case s of
        [] \<Rightarrow> None
      | c # t \<Rightarrow>
          if isMarker c
          then (case t of
                  [] \<Rightarrow> None
                | d # _ \<Rightarrow>
                    if isMarker d
                    then (case emphasisFrom 2 s of Some x \<Rightarrow> Some x | None \<Rightarrow> emphasisFrom 1 s)
                    else emphasisFrom 1 s)
          else None)"

text \<open>\<^verbatim>\<open>/~~([^~]*)~~/g\<close>, replaced by its group.\<close>

definition matchStrikethrough :: "bool \<Rightarrow> string \<Rightarrow> (string \<times> nat) option" where
  "matchStrikethrough bol s =
     (if prefix ''~~'' s
      then (let g = takeWhile (\<lambda>x. x \<noteq> CHR ''~'') (drop 2 s)
            in if prefix ''~~'' (dropWhile (\<lambda>x. x \<noteq> CHR ''~'') (drop 2 s))
               then Some (g, length g + 3) else None)
      else None)"

text \<open>\<^verbatim>\<open>/^---+$/gm\<close>\<close>

definition matchRule :: "bool \<Rightarrow> string \<Rightarrow> (string \<times> nat) option" where
  "matchRule bol s =
     (let n = length (takeWhile (\<lambda>x. x = CHR ''-'') s)
      in if bol \<and> 3 \<le> n \<and> (case drop n s of [] \<Rightarrow> True | c # _ \<Rightarrow> isLineTerminator c)
         then Some ([], n - 1) else None)"

text \<open>\<^verbatim>\<open>/^[\s]*[-*+]\s+/gm\<close>\<close>

definition matchBullet :: "bool \<Rightarrow> string \<Rightarrow> (string \<times> nat) option" where
  "matchBullet bol s =
     (let w = takeWhile isSpace s
      in case dropWhile isSpace s of
           [] \<Rightarrow> None
         | c # r \<Rightarrow>
             (let w2 = takeWhile isSpace r
              in if bol \<and> (c = CHR ''-'' \<or> c = CHR ''*'' \<or> c = CHR ''+'') \<and> w2 \<noteq> []
                 then Some ([], length w + length w2) else None))"

text \<open>\<^verbatim>\<open>/^[\s]*\d+\.\s+/gm\<close>\<close>

definition isDigit :: "char \<Rightarrow> bool" where
  "isDigit c \<longleftrightarrow> (let n = (of_char c :: nat) in 48 \<le> n \<and> n \<le> 57)"

definition matchNumbered :: "bool \<Rightarrow> string \<Rightarrow> (string \<times> nat) option" where
  "matchNumbered bol s =
     (let w = takeWhile isSpace s;
          r = dropWhile isSpace s;
          d = takeWhile isDigit r
      in case dropWhile isDigit r of
           [] \<Rightarrow> None
         | c # r3 \<Rightarrow>
             (let w2 = takeWhile isSpace r3
              in if bol \<and> d \<noteq> [] \<and> c = CHR ''.'' \<and> w2 \<noteq> []
                 then Some ([], length w + length d + length w2) else None))"

text \<open>
  \<^verbatim>\<open>/\n\s*\n/g\<close>, replaced by one newline: the greedy \<open>\s*\<close> gives back until the last
  newline of the whitespace run.
\<close>

definition matchBlankLines :: "bool \<Rightarrow> string \<Rightarrow> (string \<times> nat) option" where
  "matchBlankLines bol s =
     (case s of
        [] \<Rightarrow> None
      | c # t \<Rightarrow>
          if c = CHR 0x0A
          then (case lastIndexOf (CHR 0x0A) (takeWhile isSpace t) of
                  None \<Rightarrow> None
                | Some j \<Rightarrow> Some ([CHR 0x0A], j + 1))
          else None)"

definition trim :: "string \<Rightarrow> string" where
  "trim s = rev (dropWhile isSpace (rev (dropWhile isSpace s)))"

text \<open>
  \<^verbatim>\<open>extractPlainText(markdown)\<close>: the empty string is falsy and gives \<^verbatim>\<open>''\<close>; the chain of
  replacements cannot throw on a string, so the \<^verbatim>\<open>catch\<close> branch is not reached.
\<close>

definition extractPlainText :: "string \<Rightarrow> string" where
  "extractPlainText markdown =
     (if markdown = [] then []
      else trim
        (replaceAll matchBlankLines True
        (replaceAll matchNumbered True
        (replaceAll matchBullet True
        (replaceAll matchRule True
        (replaceAll matchStrikethrough True
        (replaceAll matchEmphasis True
        (replaceAll matchHeader True
        (replaceAll matchImage True
        (replaceAll matchLink True
        (replaceAll matchInlineCode True
        (replaceAll matchCodeBlock True markdown))))))))))))"

section \<open>Notes, index entries and the service state\<close>

text \<open>
  A note as \<^verbatim>\<open>noteService.getAllNotes()\<close> returns it: the stored row, the category name joined
  in (absent when the note has no category) and the tag list. \<open>updated_at\<close> is the time value
  of \<^verbatim>\<open>new Date(note.updated_at)\<close> in milliseconds; the store writes it with
  \<^verbatim>\<open>toISOString()\<close>, which always parses. \<open>title\<close> and \<open>content\<close> are strings, on which
  \<^verbatim>\<open>x || ''\<close> is the identity. The fields that the search service never reads (creation
  time, archive flag, category colour) are left out.
\<close>

record Tag =
  tag_id :: nat
  name :: string

record NoteRecord =
  note_id :: nat
  title :: string
  content :: string
  category_id :: "nat option"
  category_name :: "string option"
  tags :: "Tag list option"
  is_favorite :: bool
  updated_at :: int

text \<open>\<^verbatim>\<open>{...note, searchableContent, searchTerms}\<close>\<close>

record IndexEntry =
  noteOf :: NoteRecord
  searchableContent :: string
  searchTerms :: "string list"

text \<open>
  An element of the \<^verbatim>\<open>results\<close> array: an index entry, or the copy
  \<^verbatim>\<open>{...note, score}\<close> that \<^verbatim>\<open>filterByQuery\<close> makes of it. \<open>None\<close> is the property
  being \<^verbatim>\<open>undefined\<close>.
\<close>

record SearchResult =
  entry :: IndexEntry
  score :: "int option"

text \<open>
  The bounds of a date range after \<^verbatim>\<open>new Date(start)\<close> and \<^verbatim>\<open>new Date(end)\<close>: a
  time value, or \<open>None\<close> for an Invalid Date (whose value is NaN).
\<close>

record DateRange =
  range_start :: "int option"
  range_end :: "int option"

text \<open>The options of \<^verbatim>\<open>search\<close> after destructuring, that is with the defaults filled in.\<close>

record SearchOptions =
  categoryId :: "nat option"
  filterTags :: "nat list"
  isFavorite :: "bool option"
  dateRange :: "DateRange option"
  sortBy :: string
  limit :: int

definition defaultOptions :: SearchOptions where
  "defaultOptions =
     \<lparr>categoryId = None, filterTags = [], isFavorite = None, dateRange = None,
      sortBy = ''relevance'', limit = 50\<rparr>"

text \<open>
  The \<^verbatim>\<open>Map\<close> keeps its keys in insertion order; \<^verbatim>\<open>set\<close> on a key that is present
  replaces the value where it stands.
\<close>

type_synonym SearchIndex = "(nat \<times> IndexEntry) list"

fun mapSet :: "nat \<Rightarrow> IndexEntry \<Rightarrow> SearchIndex \<Rightarrow> SearchIndex" where
  "mapSet k v [] = [(k, v)]"
| "mapSet k v ((k', v') # m) = (if k' = k then (k, v) # m else (k', v') # mapSet k v m)"

definition mapDelete :: "nat \<Rightarrow> SearchIndex \<Rightarrow> SearchIndex" where
  "mapDelete k m = filter (\<lambda>p. fst p \<noteq> k) m"

definition mapValues :: "SearchIndex \<Rightarrow> IndexEntry list" where
  "mapValues m = map snd m"

record SearchService =
  searchIndex :: SearchIndex
  initialized :: bool

definition newSearchService :: SearchService where
  "newSearchService = \<lparr>searchIndex = [], initialized = False\<rparr>"

text \<open>What a rejected \<^verbatim>\<open>noteService.getAllNotes()\<close> throws.\<close>

datatype error = CorpusFetchError

text \<open>
  The Note Store as a call sees it: the outcome of \<^verbatim>\<open>noteService.getAllNotes()\<close>, the same
  for every fetch within one call of the service.
\<close>

type_synonym NoteStore = "error + NoteRecord list"

text \<open>The truthiness of an optional string and of an optional number.\<close>

definition truthyStr :: "string option \<Rightarrow> bool" where
  "truthyStr q = (case q of None \<Rightarrow> False | Some s \<Rightarrow> s \<noteq> [])"

definition truthyId :: "nat option \<Rightarrow> bool" where
  "truthyId c = (case c of None \<Rightarrow> False | Some n \<Rightarrow> n \<noteq> 0)"

definition queryString :: "string option \<Rightarrow> string" where
  "queryString q = (case q of None \<Rightarrow> [] | Some s \<Rightarrow> s)"

section \<open>SearchService: building the index\<close>

fun joinWith :: "string \<Rightarrow> string list \<Rightarrow> string" where
  "joinWith sep [] = []"
| "joinWith sep [x] = x"
| "joinWith sep (x # y # ys) = x @ sep @ joinWith sep (y # ys)"

definition extractSearchableContent :: "NoteRecord \<Rightarrow> string" where
  "extractSearchableContent n =
     (let title' = title n;
          content' = extractPlainText (content n);
          categoryName = (case category_name n of None \<Rightarrow> [] | Some c \<Rightarrow> c);
          tags' = (case tags n of None \<Rightarrow> [] | Some ts \<Rightarrow> joinWith '' '' (map name ts))
      in toLowerCase (title' @ '' '' @ content' @ '' '' @ categoryName @ '' '' @ tags'))"

definition indexEntry :: "NoteRecord \<Rightarrow> IndexEntry" where
  "indexEntry n =
     (let searchableContent' = extractSearchableContent n
      in \<lparr>noteOf = n, searchableContent = searchableContent',
          searchTerms = generateSearchTerms searchableContent'\<rparr>)"

text \<open>The body of the \<^verbatim>\<open>try\<close> block of \<^verbatim>\<open>buildSearchIndex\<close>.\<close>

definition buildSearchIndexBody :: "NoteStore \<Rightarrow> SearchService \<Rightarrow> (error + unit) \<times> SearchService" where
  "buildSearchIndexBody store s =
     (case store of
        Inl e \<Rightarrow> (Inl e, s)
      | Inr notes \<Rightarrow>
          (Inr (),
           s\<lparr>searchIndex := fold (\<lambda>n m. mapSet (note_id n) (indexEntry n) m) notes []\<rparr>))"

text \<open>\<^verbatim>\<open>buildSearchIndex\<close>: the \<^verbatim>\<open>catch\<close> logs the error and returns normally.\<close>

definition buildSearchIndex :: "NoteStore \<Rightarrow> SearchService \<Rightarrow> (error + unit) \<times> SearchService" where
  "buildSearchIndex store s =
     (case buildSearchIndexBody store s of
        (Inl e, s') \<Rightarrow> (Inr (), s')
      | (Inr u, s') \<Rightarrow> (Inr u, s'))"

definition initialize :: "NoteStore \<Rightarrow> SearchService \<Rightarrow> (error + unit) \<times> SearchService" where
  "initialize store s =
     (if \<not> initialized s
      then (case buildSearchIndex store s of
              (Inl e, s') \<Rightarrow> (Inl e, s')
            | (Inr u, s') \<Rightarrow> (Inr (), s'\<lparr>initialized := True\<rparr>))
      else (Inr (), s))"

definition rebuildIndex :: "NoteStore \<Rightarrow> SearchService \<Rightarrow> (error + unit) \<times> SearchService" where
  "rebuildIndex store s = initialize store (s\<lparr>initialized := False\<rparr>)"

definition updateNoteInIndex :: "NoteRecord \<Rightarrow> SearchService \<Rightarrow> SearchService" where
  "updateNoteInIndex n s =
     (if \<not> initialized s then s
      else s\<lparr>searchIndex := mapSet (note_id n) (indexEntry n) (searchIndex s)\<rparr>)"

definition removeNoteFromIndex :: "nat \<Rightarrow> SearchService \<Rightarrow> SearchService" where
  "removeNoteFromIndex noteId s = s\<lparr>searchIndex := mapDelete noteId (searchIndex s)\<rparr>"

section \<open>SearchService: scoring, filtering and sorting\<close>

text \<open>
  \<^verbatim>\<open>Array.prototype.sort(compare)\<close>: a stable sort. The comparator's result is an integer;
  a NaN result counts as 0, as the language prescribes.
\<close>

fun insertBy :: "('a \<Rightarrow> 'a \<Rightarrow> int) \<Rightarrow> 'a \<Rightarrow> 'a list \<Rightarrow> 'a list" where
  "insertBy cmp x [] = [x]"
| "insertBy cmp x (y # ys) = (if cmp x y \<le> 0 then x # y # ys else y # insertBy cmp x ys)"

definition jsSort :: "('a \<Rightarrow> 'a \<Rightarrow> int) \<Rightarrow> 'a list \<Rightarrow> 'a list" where
  "jsSort cmp xs = foldr (insertBy cmp) xs []"

text \<open>\<^verbatim>\<open>xs.slice(0, n)\<close>: a negative \<open>n\<close> counts from the end.\<close>

definition slice0 :: "'a list \<Rightarrow> int \<Rightarrow> 'a list" where
  "slice0 xs n = (if n < 0 then take (nat (int (length xs) + n)) xs else take (nat n) xs)"

text \<open>\<^verbatim>\<open>(a, b) => b.score - a.score\<close>; an undefined score makes the difference NaN.\<close>

definition compareScore :: "SearchResult \<Rightarrow> SearchResult \<Rightarrow> int" where
  "compareScore a b =
     (case (score a, score b) of
        (Some x, Some y) \<Rightarrow> y - x
      | _ \<Rightarrow> 0)"

text \<open>\<^verbatim>\<open>(a, b) => new Date(b.updated_at) - new Date(a.updated_at)\<close>\<close>

definition compareDate :: "SearchResult \<Rightarrow> SearchResult \<Rightarrow> int" where
  "compareDate a b = updated_at (noteOf (entry b)) - updated_at (noteOf (entry a))"

text \<open>
  \<^verbatim>\<open>(a, b) => (a.title || '').localeCompare(b.title || '')\<close>; the collation of the host,
  \<open>localeCompare\<close>, is a parameter.
\<close>

definition compareTitle :: "(string \<Rightarrow> string \<Rightarrow> int) \<Rightarrow> SearchResult \<Rightarrow> SearchResult \<Rightarrow> int" where
  "compareTitle localeCompare a b = localeCompare (title (noteOf (entry a))) (title (noteOf (entry b)))"

text \<open>The body of the \<^verbatim>\<open>queryTerms.forEach\<close> of \<^verbatim>\<open>calculateRelevanceScore\<close>.\<close>

definition scoreTerm :: "IndexEntry \<Rightarrow> string \<Rightarrow> int \<Rightarrow> int" where
  "scoreTerm e term score0 =
     (let title' = toLowerCase (title (noteOf e));
          content' = searchableContent e;
          score1 = (if includesStr title' term then score0 + 10 else score0);
          score2 = (if includesStr content' term then score1 + 5 else score1);
          fuzzyMatches = filter (\<lambda>searchTerm. includesStr searchTerm term \<or> includesStr term searchTerm)
                           (searchTerms e);
          score3 = score2 + int (length fuzzyMatches) * 2;
          score4 = (case category_name (noteOf e) of
                      None \<Rightarrow> score3
                    | Some c \<Rightarrow> if c \<noteq> [] \<and> includesStr (toLowerCase c) term then score3 + 3 else score3)
      in case tags (noteOf e) of
           None \<Rightarrow> score4
         | Some ts \<Rightarrow>
             fold (\<lambda>tag sc. if includesStr (toLowerCase (name tag)) term then sc + 3 else sc) ts score4)"

definition calculateRelevanceScore :: "IndexEntry \<Rightarrow> string list \<Rightarrow> int" where
  "calculateRelevanceScore e queryTerms = fold (scoreTerm e) queryTerms 0"

definition queryTermsOf :: "string \<Rightarrow> string list" where
  "queryTermsOf query = filter (\<lambda>term. length term > 0) (splitWhitespace (toLowerCase query))"

definition filterByQuery :: "SearchResult list \<Rightarrow> string \<Rightarrow> SearchResult list" where
  "filterByQuery notes query =
     (let queryTerms = queryTermsOf query
      in jsSort compareScore
           (filter (\<lambda>n. case score n of None \<Rightarrow> False | Some sc \<Rightarrow> sc > 0)
             (map (\<lambda>n. \<lparr>entry = entry n, score = Some (calculateRelevanceScore (entry n) queryTerms)\<rparr>)
                notes)))"

text \<open>A comparison with an Invalid Date is false.\<close>

definition filterByDateRange :: "SearchResult list \<Rightarrow> DateRange \<Rightarrow> SearchResult list" where
  "filterByDateRange notes dr =
     filter (\<lambda>n. case (range_start dr, range_end dr) of
                   (Some startDate, Some endDate) \<Rightarrow>
                     updated_at (noteOf (entry n)) \<ge> startDate \<and> updated_at (noteOf (entry n)) \<le> endDate
                 | _ \<Rightarrow> False)
       notes"

definition sortResults ::
  "(string \<Rightarrow> string \<Rightarrow> int) \<Rightarrow> SearchResult list \<Rightarrow> string \<Rightarrow> string option \<Rightarrow> SearchResult list" where
  "sortResults localeCompare results sortBy' query =
     (if sortBy' = ''date'' then jsSort compareDate results
      else if sortBy' = ''title'' then jsSort (compareTitle localeCompare) results
      else if truthyStr query \<and> (case results of [] \<Rightarrow> False | r # _ \<Rightarrow> score r \<noteq> None)
           then jsSort compareScore results
      else jsSort compareDate results)"

section \<open>SearchService: search and suggestions\<close>

text \<open>
  What \<^verbatim>\<open>search\<close> returns: the notes of the store on the early return, elements of the
  \<^verbatim>\<open>results\<close> array otherwise.
\<close>

datatype SearchOutput = PassThrough "NoteRecord list" | Indexed "SearchResult list"

text \<open>The condition of the early return of \<^verbatim>\<open>search\<close>.\<close>

definition noCriteria :: "string option \<Rightarrow> SearchOptions \<Rightarrow> bool" where
  "noCriteria query opts \<longleftrightarrow>
     \<not> truthyStr query \<and> \<not> truthyId (categoryId opts) \<and> length (filterTags opts) = 0
     \<and> isFavorite opts = None"

text \<open>
  \<^verbatim>\<open>Array.from(this.searchIndex.values())\<close>: a new array of the entries, in insertion order.
  None of them has a \<^verbatim>\<open>score\<close> property.
\<close>

definition indexValues :: "SearchService \<Rightarrow> SearchResult list" where
  "indexValues s = map (\<lambda>e. \<lparr>entry = e, score = None\<rparr>) (mapValues (searchIndex s))"

text \<open>The filters of \<^verbatim>\<open>search\<close>, from the array of index values to the sort.\<close>

definition applyFilters :: "string option \<Rightarrow> SearchOptions \<Rightarrow> SearchService \<Rightarrow> SearchResult list" where
  "applyFilters query opts s =
     (let results0 = indexValues s;
          results1 = (if truthyStr query then filterByQuery results0 (queryString query) else results0);
          results2 = (if truthyId (categoryId opts)
                      then filter (\<lambda>n. category_id (noteOf (entry n)) = categoryId opts) results1
                      else results1);
          results3 = (if length (filterTags opts) > 0
                      then filter (\<lambda>n. case tags (noteOf (entry n)) of
                                         None \<Rightarrow> False
                                       | Some ts \<Rightarrow> list_ex (\<lambda>tag. tag_id tag \<in> set (filterTags opts)) ts)
                             results2
                      else results2);
          results4 = (case isFavorite opts of
                        None \<Rightarrow> results3
                      | Some fav \<Rightarrow> filter (\<lambda>n. is_favorite (noteOf (entry n)) = fav) results3)
      in case dateRange opts of
           None \<Rightarrow> results4
         | Some dr \<Rightarrow> filterByDateRange results4 dr)"

definition search ::
  "(string \<Rightarrow> string \<Rightarrow> int) \<Rightarrow> NoteStore \<Rightarrow> string option \<Rightarrow> SearchOptions \<Rightarrow> SearchService
     \<Rightarrow> (error + SearchOutput) \<times> SearchService" where
  "search localeCompare store query opts s0 =
     (case initialize store s0 of
        (Inl e, s) \<Rightarrow> (Inl e, s)
      | (Inr u, s) \<Rightarrow>
          if noCriteria query opts
          then (case store of
                  Inl e \<Rightarrow> (Inl e, s)
                | Inr notes \<Rightarrow> (Inr (PassThrough notes), s))
          else (Inr (Indexed
                  (slice0 (sortResults localeCompare (applyFilters query opts s) (sortBy opts) query)
                     (limit opts))),
                s))"

text \<open>\<^verbatim>\<open>Set.prototype.add\<close> on an insertion-ordered set of strings.\<close>

definition setAdd :: "string \<Rightarrow> string list \<Rightarrow> string list" where
  "setAdd x xs = (if x \<in> set xs then xs else xs @ [x])"

definition suggestTitle :: "string \<Rightarrow> IndexEntry \<Rightarrow> string list \<Rightarrow> string list" where
  "suggestTitle queryLower e suggestions =
     (if includesStr (toLowerCase (title (noteOf e))) queryLower
      then setAdd (title (noteOf e)) suggestions else suggestions)"

definition suggestTags :: "string \<Rightarrow> IndexEntry \<Rightarrow> string list \<Rightarrow> string list" where
  "suggestTags queryLower e suggestions =
     (case tags (noteOf e) of
        None \<Rightarrow> suggestions
      | Some ts \<Rightarrow>
          fold (\<lambda>tag sg. if includesStr (toLowerCase (name tag)) queryLower
                          then setAdd (name tag) sg else sg) ts suggestions)"

definition suggestCategory :: "string \<Rightarrow> IndexEntry \<Rightarrow> string list \<Rightarrow> string list" where
  "suggestCategory queryLower e suggestions =
     (case category_name (noteOf e) of
        None \<Rightarrow> suggestions
      | Some c \<Rightarrow>
          if c \<noteq> [] \<and> includesStr (toLowerCase c) queryLower
          then setAdd c suggestions else suggestions)"

definition collectSuggestions :: "string \<Rightarrow> IndexEntry list \<Rightarrow> string list" where
  "collectSuggestions queryLower es =
     fold (suggestCategory queryLower) es
       (fold (suggestTags queryLower) es
          (fold (suggestTitle queryLower) es []))"

definition getSearchSuggestions ::
  "NoteStore \<Rightarrow> string option \<Rightarrow> int \<Rightarrow> SearchService \<Rightarrow> (error + string list) \<times> SearchService" where
  "getSearchSuggestions store query limit' s0 =
     (case initialize store s0 of
        (Inl e, s) \<Rightarrow> (Inl e, s)
      | (Inr u, s) \<Rightarrow>
          if \<not> truthyStr query \<or> length (queryString query) < 2 then (Inr [], s)
          else (Inr (slice0 (collectSuggestions (toLowerCase (queryString query))
                               (mapValues (searchIndex s))) limit'),
                s))"

section \<open>The tokenizer as the specification words it\<close>

text \<open>The tokens of a string: its maximal runs of non-whitespace code units, in order.\<close>

function wsTokens :: "string \<Rightarrow> string list" where
  "wsTokens s =
     (case dropWhile isSpace s of
        [] \<Rightarrow> []
      | c # cs \<Rightarrow> (c # takeWhile (\<lambda>x. \<not> isSpace x) cs)
                  # wsTokens (dropWhile (\<lambda>x. \<not> isSpace x) cs))"
  by pat_completeness auto
termination
proof (relation "measure length")
  show "wf (measure length)" by simp
next
  fix s :: string and c cs
  assume a: "dropWhile isSpace s = c # cs"
  have "length (dropWhile (\<lambda>x. \<not> isSpace x) cs) \<le> length cs"
    by (rule length_dropWhile_le)
  also have "length cs < length (dropWhile isSpace s)"
    using a by simp
  also have "\<dots> \<le> length s"
    by (rule length_dropWhile_le)
  finally show "(dropWhile (\<lambda>x. \<not> isSpace x) cs, s) \<in> measure length"
    by simp
qed

declare wsTokens.simps [simp del]

definition tokenizerSpec :: "string \<Rightarrow> string list" where
  "tokenizerSpec s =
     map stripNonWord
       (filter (\<lambda>t. stripNonWord t \<noteq> []) (filter (\<lambda>t. \<not> length t \<le> 2) (wsTokens s)))"


section \<open>Scoring as the specification words it\<close>

text \<open>
  The score of one query term against an entry: 10 for the lower-cased title, 5 for the
  searchable content, 2 for each stored search term that contains the term or is contained
  in it, 3 for the lower-cased category name, 3 for each tag whose lower-cased name contains
  the term. An entry without a category or without a tag list gets nothing for them.
\<close>

definition specTermScore :: "IndexEntry \<Rightarrow> string \<Rightarrow> int" where
  "specTermScore e t =
     (if includesStr (toLowerCase (title (noteOf e))) t then 10 else 0)
     + (if includesStr (searchableContent e) t then 5 else 0)
     + 2 * int (length (filter (\<lambda>st. includesStr st t \<or> includesStr t st) (searchTerms e)))
     + (case category_name (noteOf e) of
          None \<Rightarrow> 0
        | Some c \<Rightarrow> if includesStr (toLowerCase c) t then 3 else 0)
     + 3 * int (length (filter (\<lambda>tag. includesStr (toLowerCase (name tag)) t)
                          (case tags (noteOf e) of None \<Rightarrow> [] | Some ts \<Rightarrow> ts)))"

text \<open>The score of a query: the sum over the whitespace-separated terms of the lower-cased query.\<close>

definition specScore :: "IndexEntry \<Rightarrow> string \<Rightarrow> int" where
  "specScore e query = sum_list (map (specTermScore e) (wsTokens (toLowerCase query)))"

text \<open>The scoring stage: entries of score 0 are dropped, the others carry their score.\<close>

definition specScored :: "SearchResult list \<Rightarrow> string \<Rightarrow> SearchResult list" where
  "specScored notes query =
     map (\<lambda>n. \<lparr>entry = entry n, score = Some (specScore (entry n) query)\<rparr>)
       (filter (\<lambda>n. specScore (entry n) query \<noteq> 0) notes)"

section \<open>Filters and tie order as the specification words them\<close>

text \<open>
  The structured filters on one entry: the requested category exactly, one of the requested
  tags at least, the requested favorite flag, and an updated timestamp within the date
  range, bounds included.
\<close>

definition matchesFilters :: "SearchOptions \<Rightarrow> IndexEntry \<Rightarrow> bool" where
  "matchesFilters opts e \<longleftrightarrow>
     (if truthyId (categoryId opts) then category_id (noteOf e) = categoryId opts else True)
     \<and> (if filterTags opts = [] then True
         else (case tags (noteOf e) of
                 None \<Rightarrow> False
               | Some ts \<Rightarrow> list_ex (\<lambda>tag. tag_id tag \<in> set (filterTags opts)) ts))
     \<and> (case isFavorite opts of None \<Rightarrow> True | Some fav \<Rightarrow> is_favorite (noteOf e) = fav)
     \<and> (case dateRange opts of
           None \<Rightarrow> True
         | Some dr \<Rightarrow>
             (case (range_start dr, range_end dr) of
                (Some a, Some b) \<Rightarrow> a \<le> updated_at (noteOf e) \<and> updated_at (noteOf e) \<le> b
              | _ \<Rightarrow> False))"

text \<open>
  The elements that share a key value stand in \<open>out\<close> as they stand in \<open>arrival\<close>: the same
  elements in the same order.
\<close>

definition keepsTieOrder :: "('a \<Rightarrow> 'k) \<Rightarrow> 'a list \<Rightarrow> 'a list \<Rightarrow> bool" where
  "keepsTieOrder key arrival out \<longleftrightarrow>
     (\<forall>v. filter (\<lambda>x. key x = v) out = filter (\<lambda>x. key x = v) arrival)"

text \<open>The score of a result that carries one.\<close>

definition scoreOf :: "SearchResult \<Rightarrow> int" where
  "scoreOf r = (case score r of None \<Rightarrow> 0 | Some sc \<Rightarrow> sc)"

text \<open>A collation for concrete runs: titles compared code unit by code unit.\<close>

fun codeUnitCompare :: "string \<Rightarrow> string \<Rightarrow> int" where
  "codeUnitCompare [] [] = 0"
| "codeUnitCompare [] (y # ys) = - 1"
| "codeUnitCompare (x # xs) [] = 1"
| "codeUnitCompare (x # xs) (y # ys) =
     (if (of_char x :: nat) < of_char y then - 1
      else if (of_char y :: nat) < of_char x then 1
      else codeUnitCompare xs ys)"

definition codeUnits :: "string \<Rightarrow> nat list" where
  "codeUnits s = map of_char s"

section \<open>A corpus with a tie\<close>

text \<open>Two notes updated at the same instant; the one inserted second matches the query better.\<close>

definition tieNoteA :: NoteRecord where
  "tieNoteA =
     \<lparr>note_id = 1, title = ''Notes'', content = ''rust'',
      category_id = None, category_name = None, tags = Some [], is_favorite = False,
      updated_at = 1000\<rparr>"

definition tieNoteB :: NoteRecord where
  "tieNoteB =
     \<lparr>note_id = 2, title = ''Rust'', content = ''rust'',
      category_id = None, category_name = None, tags = Some [], is_favorite = False,
      updated_at = 1000\<rparr>"

definition tieStore :: NoteStore where
  "tieStore = Inr [tieNoteA, tieNoteB]"

section \<open>Suggestions as the specification words them\<close>

text \<open>A list without its repetitions: each element stays where it occurs first.\<close>

definition firstOccurrences :: "string list \<Rightarrow> string list" where
  "firstOccurrences xs = rev (remdups (rev xs))"

text \<open>
  The candidates for a lower-cased query, in pass order: the note titles that contain it
  (compared in lower case), then the tag names, then the category names.
\<close>

definition suggestionCandidates :: "string \<Rightarrow> IndexEntry list \<Rightarrow> string list" where
  "suggestionCandidates queryLower es =
     filter (\<lambda>x. includesStr (toLowerCase x) queryLower) (map (\<lambda>e. title (noteOf e)) es)
     @ filter (\<lambda>x. includesStr (toLowerCase x) queryLower)
         (concat (map (\<lambda>e. case tags (noteOf e) of None \<Rightarrow> [] | Some ts \<Rightarrow> map name ts) es))
     @ filter (\<lambda>x. includesStr (toLowerCase x) queryLower)
         (concat (map (\<lambda>e. case category_name (noteOf e) of None \<Rightarrow> [] | Some c \<Rightarrow> [c]) es))"

section \<open>The corpus of the specification's scenario\<close>

text \<open>The two notes of the scenario, updated at the instants \<open>t1\<close> and \<open>t2\<close>.\<close>

definition scenarioNote1At :: "int \<Rightarrow> NoteRecord" where
  "scenarioNote1At t1 =
     \<lparr>note_id = 1, title = ''Go Routines'', content = ''concurrency patterns'',
      category_id = None, category_name = None, tags = Some [], is_favorite = False,
      updated_at = t1\<rparr>"

definition scenarioNote2At :: "int \<Rightarrow> NoteRecord" where
  "scenarioNote2At t2 =
     \<lparr>note_id = 2, title = ''Rust Ownership'', content = ''memory safety'',
      category_id = None, category_name = None,
      tags = Some [\<lparr>tag_id = 9, name = ''systems''\<rparr>], is_favorite = True,
      updated_at = t2\<rparr>"

text \<open>The scenario at two concrete instants.\<close>

definition scenarioNote1 :: NoteRecord where
  "scenarioNote1 = scenarioNote1At 1000"

definition scenarioNote2 :: NoteRecord where
  "scenarioNote2 = scenarioNote2At 2000"

definition scenarioStore :: NoteStore where
  "scenarioStore = Inr [scenarioNote1, scenarioNote2]"


section \<open>Properties of the string primitives\<close>

lemma wsTokens_Nil: "wsTokens [] = []"
  by (simp add: wsTokens.simps)

lemma wsTokens_space: "isSpace c \<Longrightarrow> wsTokens (c # cs) = wsTokens cs"
  by (simp add: wsTokens.simps [of "c # cs"] wsTokens.simps [of cs])

lemma wsTokens_nonspace:
  "\<not> isSpace c \<Longrightarrow>
     wsTokens (c # cs) = (c # takeWhile (\<lambda>x. \<not> isSpace x) cs)
                           # wsTokens (dropWhile (\<lambda>x. \<not> isSpace x) cs)"
  by (simp add: wsTokens.simps [of "c # cs"])

lemma splitRuns_nonempty: "splitRuns b s \<noteq> []"
  by (induction s arbitrary: b) (auto split: list.splits)

lemma splitRuns_False_shape:
  "hd (splitRuns False s) = takeWhile (\<lambda>x. \<not> isSpace x) s
   \<and> filter (\<lambda>t. t \<noteq> []) (tl (splitRuns False s)) = wsTokens (dropWhile (\<lambda>x. \<not> isSpace x) s)
   \<and> filter (\<lambda>t. t \<noteq> []) (splitRuns True s) = wsTokens s"
proof (induction s)
  case Nil
  show ?case by (simp add: wsTokens_Nil)
next
  case (Cons c cs)
  obtain t ts where ts: "splitRuns False cs = t # ts"
    using splitRuns_nonempty [of False cs] by (cases "splitRuns False cs") auto
  show ?case
  proof (cases "isSpace c")
    case True
    with Cons show ?thesis by (simp add: wsTokens_space)
  next
    case False
    with Cons ts show ?thesis by (simp add: wsTokens_nonspace)
  qed
qed

lemma splitWhitespace_tokens:
  "filter (\<lambda>t. t \<noteq> []) (splitWhitespace s) = wsTokens s"
proof (cases s)
  case Nil
  then show ?thesis by (simp add: splitWhitespace_def wsTokens_Nil)
next
  case (Cons c cs)
  obtain t ts where ts: "splitRuns False s = t # ts"
    using splitRuns_nonempty [of False s] by (cases "splitRuns False s") auto
  have shape: "t = takeWhile (\<lambda>x. \<not> isSpace x) s"
    "filter (\<lambda>t. t \<noteq> []) ts = wsTokens (dropWhile (\<lambda>x. \<not> isSpace x) s)"
    using splitRuns_False_shape [of s] ts by simp_all
  show ?thesis
  proof (cases "isSpace c")
    case True
    with Cons shape ts show ?thesis by (simp add: splitWhitespace_def)
  next
    case False
    with Cons shape ts show ?thesis by (simp add: splitWhitespace_def wsTokens_nonspace)
  qed
qed

section \<open>The tokenizer\<close>

text \<open>
  C4. For every input string, \<open>generateSearchTerms\<close> yields exactly what the specification
  describes: the whitespace-separated tokens in their order of occurrence, without those of
  raw length 2 or less, each stripped of its non-word characters, without those that
  stripping left empty. Nothing is deduplicated (the result is the image of a filtered token
  list, position by position), and the result depends on the argument alone.
\<close>

theorem generateSearchTerms_refines_spec:
  "generateSearchTerms s = tokenizerSpec s"
proof -
  have long: "filter (\<lambda>t. length t > 2) (splitWhitespace s)
            = filter (\<lambda>t. \<not> length t \<le> 2) (wsTokens s)"
  proof -
    have "filter (\<lambda>t. length t > 2) (splitWhitespace s)
        = filter (\<lambda>t. length t > 2) (filter (\<lambda>t. t \<noteq> []) (splitWhitespace s))"
      by (simp add: conj_commute) (rule filter_cong, auto)
    also have "\<dots> = filter (\<lambda>t. \<not> length t \<le> 2) (wsTokens s)"
      by (simp add: splitWhitespace_tokens not_le)
    finally show ?thesis .
  qed
  have "generateSearchTerms s
      = filter (\<lambda>t. t \<noteq> []) (map stripNonWord (filter (\<lambda>t. \<not> length t \<le> 2) (wsTokens s)))"
    by (simp add: generateSearchTerms_def long)
  also have "\<dots> = tokenizerSpec s"
    by (simp add: tokenizerSpec_def filter_map comp_def)
  finally show ?thesis .
qed


theorem generateSearchTerms_refines_spec_witness:
  "generateSearchTerms ''go-routines are  fun fun ab +++ c++!''
     = [''goroutines'', ''are'', ''fun'', ''fun'', ''c'']
   \<and> tokenizerSpec ''go-routines are  fun fun ab +++ c++!''
     = [''goroutines'', ''are'', ''fun'', ''fun'', ''c'']"
proof -
  have "generateSearchTerms ''go-routines are  fun fun ab +++ c++!''
          = [''goroutines'', ''are'', ''fun'', ''fun'', ''c'']"
    by code_simp
  then show ?thesis
    using generateSearchTerms_refines_spec [of "''go-routines are  fun fun ab +++ c++!''"]
    by simp
qed

section \<open>The scoring stage\<close>

lemma includesStr_Nil_left: "includesStr [] t \<longleftrightarrow> t = []"
  by simp

lemma includesStr_lower_Nil: "t \<noteq> [] \<Longrightarrow> \<not> includesStr (toLowerCase []) t"
  by (simp add: toLowerCase_def)

lemma fold_count_matches:
  "fold (\<lambda>x (sc::int). if P x then sc + 3 else sc) xs sc0 = sc0 + 3 * int (length (filter P xs))"
  by (induction xs arbitrary: sc0) auto

lemma scoreTerm_spec: "t \<noteq> [] \<Longrightarrow> scoreTerm e t sc = sc + specTermScore e t"
  by (cases "category_name (noteOf e)"; cases "tags (noteOf e)")
     (simp_all add: scoreTerm_def specTermScore_def Let_def fold_count_matches toLowerCase_def)

lemma fold_scoreTerm_spec:
  "[] \<notin> set ts \<Longrightarrow> fold (scoreTerm e) ts sc = sc + sum_list (map (specTermScore e) ts)"
  by (induction ts arbitrary: sc) (auto simp: scoreTerm_spec)

lemma queryTermsOf_tokens: "queryTermsOf query = wsTokens (toLowerCase query)"
  using splitWhitespace_tokens [of "toLowerCase query"] by (simp add: queryTermsOf_def)

lemma queryTermsOf_nonempty: "[] \<notin> set (queryTermsOf query)"
  by (simp add: queryTermsOf_def)

lemma calculateRelevanceScore_spec:
  "calculateRelevanceScore e (queryTermsOf query) = specScore e query"
  using fold_scoreTerm_spec [OF queryTermsOf_nonempty, of e query 0]
  by (simp add: calculateRelevanceScore_def specScore_def queryTermsOf_tokens)

lemma specTermScore_nonneg: "0 \<le> specTermScore e t"
  by (simp add: specTermScore_def split: option.splits)

lemma specScore_nonneg: "0 \<le> specScore e query"
  unfolding specScore_def by (rule sum_list_nonneg) (auto simp: specTermScore_nonneg)

lemma specScore_pos_iff: "0 < specScore e query \<longleftrightarrow> specScore e query \<noteq> 0"
  using specScore_nonneg [of e query] by arith

lemma scoring_stage_spec:
  "filter (\<lambda>n. case score n of None \<Rightarrow> False | Some sc \<Rightarrow> sc > 0)
     (map (\<lambda>n. \<lparr>entry = entry n, score = Some (calculateRelevanceScore (entry n) (queryTermsOf query))\<rparr>)
        rs)
   = specScored rs query"
  by (induction rs) (simp_all add: specScored_def calculateRelevanceScore_spec specScore_pos_iff)

text \<open>
  C2. For every query and every index entry, the score that \<open>calculateRelevanceScore\<close>
  computes over the query's terms is the sum the specification describes (10 for the title, 5
  for the searchable content, 2 for each stored term matching in either direction, 3 for the
  category name, 3 for each matching tag), and \<open>filterByQuery\<close> returns exactly the entries
  of non-zero score, each annotated with that score (in the order of its sort by score).
\<close>

theorem filterByQuery_scores_as_specified:
  "calculateRelevanceScore e (queryTermsOf query) = specScore e query
   \<and> filterByQuery rs query = jsSort compareScore (specScored rs query)"
  by (simp add: calculateRelevanceScore_spec filterByQuery_def scoring_stage_spec [symmetric])


theorem filterByQuery_scores_as_specified_witness:
  "calculateRelevanceScore (indexEntry scenarioNote1) (queryTermsOf ''Concurrency go'') = 22
   \<and> specScore (indexEntry scenarioNote1) ''Concurrency go'' = 22"
proof -
  have "calculateRelevanceScore (indexEntry scenarioNote1) (queryTermsOf ''Concurrency go'') = 22"
    by code_simp
  then show ?thesis
    using filterByQuery_scores_as_specified
            [of "indexEntry scenarioNote1" "''Concurrency go''" "[]"]
    by simp
qed

section \<open>Sorting\<close>

lemma set_insertBy: "set (insertBy cmp x ys) = insert x (set ys)"
  by (induction ys) auto

lemma set_jsSort: "set (jsSort cmp xs) = set xs"
  by (induction xs) (simp_all add: jsSort_def set_insertBy)

lemma insertBy_insort_key:
  "\<forall>b\<in>set ys. cmp x b \<le> 0 \<longleftrightarrow> f x \<le> f b \<Longrightarrow> insertBy cmp x ys = insort_key f x ys"
  by (induction ys) simp_all

lemma jsSort_sort_key:
  fixes f :: "'a \<Rightarrow> 'k::linorder"
  assumes "\<forall>a\<in>set xs. \<forall>b\<in>set xs. cmp a b \<le> 0 \<longleftrightarrow> f a \<le> f b"
  shows "jsSort cmp xs = sort_key f xs"
  using assms
proof (induction xs)
  case Nil
  show ?case by (simp add: jsSort_def)
next
  case (Cons x xs)
  have tail: "jsSort cmp xs = sort_key f xs"
    using Cons by simp
  have "insertBy cmp x (sort_key f xs) = insort_key f x (sort_key f xs)"
    by (rule insertBy_insort_key) (use Cons.prems in simp)
  with tail show ?case
    by (simp add: jsSort_def sort_key_def)
qed

lemma jsSort_keepsTieOrder:
  fixes f :: "'a \<Rightarrow> 'k::linorder"
  assumes "\<forall>a\<in>set xs. \<forall>b\<in>set xs. cmp a b \<le> 0 \<longleftrightarrow> f a \<le> f b"
  shows "keepsTieOrder f xs (jsSort cmp xs)"
  by (simp add: keepsTieOrder_def jsSort_sort_key [OF assms] sort_key_stable)

lemma keepsTieOrder_inj:
  assumes "keepsTieOrder (\<lambda>x. g (f x)) xs ys" and "inj g"
  shows "keepsTieOrder f xs ys"
  unfolding keepsTieOrder_def
proof
  fix v
  have "(\<lambda>x. f x = v) = (\<lambda>x. g (f x) = g v)"
    using \<open>inj g\<close> by (auto dest: injD)
  then show "filter (\<lambda>x. f x = v) ys = filter (\<lambda>x. f x = v) xs"
    using assms(1) by (simp add: keepsTieOrder_def)
qed

lemma compareDate_key:
  "compareDate a b \<le> 0 \<longleftrightarrow> - updated_at (noteOf (entry a)) \<le> - updated_at (noteOf (entry b))"
  by (simp add: compareDate_def)

lemma jsSort_compareDate_ties:
  "keepsTieOrder (\<lambda>r. updated_at (noteOf (entry r))) xs (jsSort compareDate xs)"
proof -
  have "keepsTieOrder (\<lambda>r. - updated_at (noteOf (entry r))) xs (jsSort compareDate xs)"
    by (rule jsSort_keepsTieOrder) (simp add: compareDate_key)
  then show ?thesis
    by (rule keepsTieOrder_inj) (simp add: inj_def)
qed

lemma jsSort_compareTitle_ties:
  fixes collate :: "string \<Rightarrow> 'k::linorder"
  assumes "\<forall>a b. lc a b \<le> 0 \<longleftrightarrow> collate a \<le> collate b"
  shows "keepsTieOrder (\<lambda>r. collate (title (noteOf (entry r)))) xs (jsSort (compareTitle lc) xs)"
  by (rule jsSort_keepsTieOrder) (simp add: compareTitle_def assms)

text \<open>On results that all carry a score, the score comparator sorts by descending score.\<close>

lemma compareScore_key:
  "score a \<noteq> None \<Longrightarrow> score b \<noteq> None \<Longrightarrow> compareScore a b \<le> 0 \<longleftrightarrow> - scoreOf a \<le> - scoreOf b"
  by (auto simp: compareScore_def scoreOf_def)

lemma jsSort_compareScore_sort_key:
  assumes "\<forall>r\<in>set xs. score r \<noteq> None"
  shows "jsSort compareScore xs = sort_key (\<lambda>r. - scoreOf r) xs"
  by (rule jsSort_sort_key) (use assms in \<open>simp add: compareScore_key\<close>)

lemma jsSort_compareScore_ties:
  assumes "\<forall>r\<in>set xs. score r \<noteq> None"
  shows "keepsTieOrder score xs (jsSort compareScore xs)"
  unfolding keepsTieOrder_def
proof
  fix v
  let ?out = "jsSort compareScore xs"
  have out: "\<forall>r\<in>set ?out. score r \<noteq> None"
    using assms by (simp add: set_jsSort)
  have "keepsTieOrder (\<lambda>r. - scoreOf r) xs ?out"
    by (rule jsSort_keepsTieOrder) (use assms in \<open>simp add: compareScore_key\<close>)
  then have key: "keepsTieOrder scoreOf xs ?out"
    by (rule keepsTieOrder_inj) (simp add: inj_def)
  show "filter (\<lambda>x. score x = v) ?out = filter (\<lambda>x. score x = v) xs"
  proof (cases v)
    case None
    have "filter (\<lambda>x. score x = None) ?out = []" "filter (\<lambda>x. score x = None) xs = []"
      using out assms by (simp_all add: filter_empty_conv)
    with None show ?thesis by simp
  next
    case (Some sc)
    have eq: "filter (\<lambda>x. score x = Some sc) ys = filter (\<lambda>x. scoreOf x = sc) ys"
      if "\<forall>r\<in>set ys. score r \<noteq> None" for ys
      using that by (intro filter_cong) (auto simp: scoreOf_def)
    have "filter (\<lambda>x. scoreOf x = sc) ?out = filter (\<lambda>x. scoreOf x = sc) xs"
      using key by (simp add: keepsTieOrder_def)
    then show ?thesis
      by (simp only: Some eq [OF out] eq [OF assms])
  qed
qed

lemma jsSort_compareScore_descending:
  assumes "\<forall>r\<in>set xs. score r \<noteq> None"
  shows "sorted_wrt (\<lambda>a b. scoreOf b \<le> scoreOf a) (jsSort compareScore xs)"
proof -
  have "sorted (map (\<lambda>r. - scoreOf r) (sort_key (\<lambda>r. - scoreOf r) xs))"
    by (rule sorted_sort_key)
  then show ?thesis
    by (simp add: jsSort_compareScore_sort_key [OF assms] sorted_map)
qed


lemma codeUnitCompare_key: "codeUnitCompare a b \<le> 0 \<longleftrightarrow> codeUnits a \<le> codeUnits b"
  by (induction a b rule: codeUnitCompare.induct) (auto simp: codeUnits_def)

section \<open>Lazy initialization\<close>

lemma buildSearchIndex_ok: "fst (buildSearchIndex store s) = Inr ()"
  by (cases store) (simp_all add: buildSearchIndex_def buildSearchIndexBody_def)

lemma initialize_ok: "fst (initialize store s) = Inr ()"
  using buildSearchIndex_ok [of store s]
  by (cases "buildSearchIndex store s") (simp add: initialize_def)

lemma initialize_ready: "initialized s \<Longrightarrow> initialize store s = (Inr (), s)"
  by (simp add: initialize_def)

lemma initialized_initialize: "initialized (snd (initialize store s))"
  using buildSearchIndex_ok [of store s]
  by (cases "buildSearchIndex store s") (simp add: initialize_def)

lemma initialize_split: "initialize store s = (Inr (), snd (initialize store s))"
  using initialize_ok [of store s] by (cases "initialize store s") simp

section \<open>The stages of search\<close>

lemma search_unfold:
  "search lc store q opts s =
     (if noCriteria q opts
      then (case store of
              Inl e \<Rightarrow> (Inl e, snd (initialize store s))
            | Inr ns \<Rightarrow> (Inr (PassThrough ns), snd (initialize store s)))
      else (Inr (Indexed (slice0 (sortResults lc (applyFilters q opts (snd (initialize store s)))
                                     (sortBy opts) q) (limit opts))),
            snd (initialize store s)))"
proof -
  obtain s' where s': "initialize store s = (Inr (), s')"
    using initialize_split by blast
  then show ?thesis
    by (cases store) (simp_all add: search_def)
qed

lemma applyFilters_matches:
  "applyFilters q opts s =
     filter (\<lambda>r. matchesFilters opts (entry r))
       (if truthyStr q then filterByQuery (indexValues s) (queryString q) else indexValues s)"
proof -
  define base where
    "base = (if truthyStr q then filterByQuery (indexValues s) (queryString q) else indexValues s)"
  have "applyFilters q opts s = filter (\<lambda>r. matchesFilters opts (entry r)) base"
    unfolding applyFilters_def matchesFilters_def filterByDateRange_def Let_def
      base_def [symmetric]
    by (cases "isFavorite opts"; cases "dateRange opts")
       (auto simp: conj_commute intro!: filter_cong split: option.splits)
  then show ?thesis
    by (simp add: base_def)
qed

lemma scored_all: "\<forall>r\<in>set (specScored rs query). score r \<noteq> None"
  by (auto simp: specScored_def)

lemma filterByQuery_scored: "\<forall>r\<in>set (filterByQuery rs query). score r \<noteq> None"
  using scored_all [of rs query]
  by (simp add: filterByQuery_def scoring_stage_spec set_jsSort)

lemma applyFilters_scored:
  "truthyStr q \<Longrightarrow> \<forall>r\<in>set (applyFilters q opts s). score r \<noteq> None"
  using filterByQuery_scored [of "indexValues s" "queryString q"]
  by (simp add: applyFilters_matches)

lemma applyFilters_unscored:
  "\<not> truthyStr q \<Longrightarrow> \<forall>r\<in>set (applyFilters q opts s). score r = None"
  by (auto simp: applyFilters_matches indexValues_def)


lemma sortResults_Nil: "sortResults lc [] mode q = []"
  by (simp add: sortResults_def jsSort_def)

lemma set_sortResults: "set (sortResults lc rs mode q) = set rs"
  by (simp add: sortResults_def set_jsSort)

lemma set_slice0: "set (slice0 xs n) \<subseteq> set xs"
  by (auto simp: slice0_def dest: in_set_takeD)

lemma slice0_negative:
  "n < 0 \<Longrightarrow> slice0 xs n = take (length xs - nat (- n)) xs"
proof -
  assume "n < 0"
  then have "nat (int (length xs) + n) = length xs - nat (- n)"
    by arith
  with \<open>n < 0\<close> show ?thesis
    by (simp add: slice0_def)
qed

lemma entries_specScored: "entry ` set (specScored rs query) \<subseteq> entry ` set rs"
  by (auto simp: specScored_def)

lemma entries_filterByQuery: "entry ` set (filterByQuery rs query) \<subseteq> entry ` set rs"
  using entries_specScored [of rs query]
  by (simp add: filterByQuery_def scoring_stage_spec set_jsSort)

lemma entries_indexValues: "entry ` set (indexValues s) = set (mapValues (searchIndex s))"
  by (force simp: indexValues_def)

lemma entries_applyFilters:
  "entry ` set (applyFilters q opts s) \<subseteq> set (mapValues (searchIndex s))"
proof -
  have "entry ` set (applyFilters q opts s) \<subseteq> entry ` set (indexValues s)"
    using entries_filterByQuery [of "indexValues s" "queryString q"]
    by (auto simp: applyFilters_matches)
  then show ?thesis
    by (simp add: entries_indexValues)
qed

lemma date_filter_rejects_unparseable:
  assumes "dateRange opts = Some dr" and "range_start dr = None \<or> range_end dr = None"
  shows "applyFilters q opts s = []"
proof -
  have "\<not> matchesFilters opts e" for e
    using assms by (auto simp: matchesFilters_def split: option.splits)
  then show ?thesis
    by (simp add: applyFilters_matches)
qed

lemma rebuildIndex_failed_fetch_keeps_entries:
  "rebuildIndex (Inl e) s = (Inr (), s\<lparr>initialized := True\<rparr>)"
  by (simp add: rebuildIndex_def initialize_def buildSearchIndex_def buildSearchIndexBody_def)

section \<open>The early return of search\<close>

lemma noCriteria_ignores_dateRange:
  "noCriteria q (opts\<lparr>dateRange := dr\<rparr>) = noCriteria q opts"
  by (simp add: noCriteria_def)

lemma search_early_return:
  "noCriteria q opts \<Longrightarrow> fst (search lc (Inr ns) q opts s) = Inr (PassThrough ns)"
  by (simp add: search_unfold)

lemma search_indexed_path:
  "\<not> noCriteria q opts \<Longrightarrow> \<exists>rs. fst (search lc store q opts s) = Inr (Indexed rs)"
  by (simp add: search_unfold)

text \<open>
  C1. The failing inputs. A search without a query whose options set only a date range takes
  the early return, whatever the range and the state of the service: it yields the whole
  store as \<open>getAllNotes\<close> lists it, and the date-range filter is not applied.
\<close>

theorem search_date_range_only_returns_whole_store:
  "fst (search lc (Inr ns) None (defaultOptions\<lparr>dateRange := Some dr\<rparr>) s) = Inr (PassThrough ns)"
  by (rule search_early_return) (simp add: noCriteria_def defaultOptions_def truthyStr_def truthyId_def)

text \<open>
  On the scenario corpus, with a range that contains neither note, the result is both notes,
  although the filters of the indexed path, the date range included, keep no entry.
\<close>

theorem search_date_range_only_returns_whole_store_witness:
  "fst (search codeUnitCompare scenarioStore None
          (defaultOptions\<lparr>dateRange := Some \<lparr>range_start = Some 5000, range_end = Some 6000\<rparr>\<rparr>)
          newSearchService)
     = Inr (PassThrough [scenarioNote1, scenarioNote2])
   \<and> applyFilters None
        (defaultOptions\<lparr>dateRange := Some \<lparr>range_start = Some 5000, range_end = Some 6000\<rparr>\<rparr>)
        (snd (initialize scenarioStore newSearchService))
     = []"
proof -
  have "applyFilters None
          (defaultOptions\<lparr>dateRange := Some \<lparr>range_start = Some 5000, range_end = Some 6000\<rparr>\<rparr>)
          (snd (initialize scenarioStore newSearchService))
        = []"
    by code_simp
  then show ?thesis
    using search_date_range_only_returns_whole_store
            [of codeUnitCompare "[scenarioNote1, scenarioNote2]"
               "\<lparr>range_start = Some 5000, range_end = Some 6000\<rparr>" newSearchService]
    by (simp add: scenarioStore_def)
qed

section \<open>A failed fetch\<close>

text \<open>
  C3. The failing inputs. When the listing of the Note Store fails, \<open>initialize\<close> and
  \<open>rebuildIndex\<close> return normally and leave the service marked initialized, with the
  entries it had (none on a fresh service); \<open>getSearchSuggestions\<close> returns a result, not
  the error.
\<close>

theorem failed_fetch_is_swallowed:
  "initialize (Inl e) s = (Inr (), s\<lparr>initialized := True\<rparr>)
   \<and> rebuildIndex (Inl e) s = (Inr (), s\<lparr>initialized := True\<rparr>)
   \<and> (\<exists>out. fst (getSearchSuggestions (Inl e) q k s) = Inr out)"
proof (intro conjI)
  show init: "initialize (Inl e) s = (Inr (), s\<lparr>initialized := True\<rparr>)"
    by (simp add: initialize_def buildSearchIndex_def buildSearchIndexBody_def)
  show "rebuildIndex (Inl e) s = (Inr (), s\<lparr>initialized := True\<rparr>)"
    by (rule rebuildIndex_failed_fetch_keeps_entries)
  show "\<exists>out. fst (getSearchSuggestions (Inl e) q k s) = Inr out"
    by (simp add: getSearchSuggestions_def init)
qed

text \<open>
  On a fresh service: the empty index is marked initialized, and suggestions and search
  answer with an empty result.
\<close>

theorem failed_fetch_is_swallowed_witness:
  "initialize (Inl CorpusFetchError) newSearchService
     = (Inr (), \<lparr>searchIndex = [], initialized = True\<rparr>)
   \<and> fst (getSearchSuggestions (Inl CorpusFetchError) (Some ''sys'') 5 newSearchService) = Inr []
   \<and> fst (search codeUnitCompare (Inl CorpusFetchError) (Some ''rust'') defaultOptions
            newSearchService)
       = Inr (Indexed [])"
proof -
  have "initialize (Inl CorpusFetchError) newSearchService
          = (Inr (), \<lparr>searchIndex = [], initialized = True\<rparr>)"
    using failed_fetch_is_swallowed [of CorpusFetchError newSearchService]
    by (simp add: newSearchService_def)
  moreover
  have "fst (getSearchSuggestions (Inl CorpusFetchError) (Some ''sys'') 5 newSearchService) = Inr []"
    by code_simp
  moreover
  have "fst (search codeUnitCompare (Inl CorpusFetchError) (Some ''rust'') defaultOptions
               newSearchService)
          = Inr (Indexed [])"
    by code_simp
  ultimately show ?thesis
    by blast
qed

section \<open>The scenario\<close>

text \<open>
  C8, as stated, fails: on the scenario corpus the search for "concurrency" does not return
  note 1 with score 5.
\<close>

theorem scenario_score_5_counterexample:
  "fst (search codeUnitCompare scenarioStore (Some ''concurrency'') defaultOptions newSearchService)
     \<noteq> Inr (Indexed [\<lparr>entry = indexEntry scenarioNote1, score = Some 5\<rparr>])"
  by code_simp

text \<open>
  C8, amended. On the scenario corpus, whatever the two update instants and the collation,
  the search for "concurrency" with default options returns exactly one result, the entry of
  note 1, with relevance score 7: 5 for the searchable content and 2 for the stored search
  term "concurrency".
\<close>

theorem scenario_search_concurrency:
  "fst (search lc (Inr [scenarioNote1At t1, scenarioNote2At t2]) (Some ''concurrency'')
          defaultOptions newSearchService)
     = Inr (Indexed [\<lparr>entry = indexEntry (scenarioNote1At t1), score = Some 7\<rparr>])"
  by code_simp

theorem scenario_search_concurrency_witness:
  "fst (search codeUnitCompare (Inr [scenarioNote1At 1000, scenarioNote2At 2000])
          (Some ''concurrency'') defaultOptions newSearchService)
     = Inr (Indexed [\<lparr>entry = indexEntry (scenarioNote1At 1000), score = Some 7\<rparr>])"
  using scenario_search_concurrency [of codeUnitCompare 1000 2000] .

section \<open>Idempotence of initialize\<close>

text \<open>
  C9. After one call of \<open>initialize\<close>, a second call (whatever the Note Store answers then)
  returns normally and changes nothing: the service state, hence the entries of the index and
  their number, is the one the first call left.
\<close>

theorem initialize_idempotent:
  "initialize store' (snd (initialize store s)) = (Inr (), snd (initialize store s))
   \<and> searchIndex (snd (initialize store' (snd (initialize store s))))
       = searchIndex (snd (initialize store s))
   \<and> length (searchIndex (snd (initialize store' (snd (initialize store s)))))
       = length (searchIndex (snd (initialize store s)))"
  by (simp add: initialize_ready [OF initialized_initialize])

theorem initialize_idempotent_witness:
  "initialize (Inl CorpusFetchError) (snd (initialize scenarioStore newSearchService))
     = (Inr (), snd (initialize scenarioStore newSearchService))"
  using initialize_idempotent [of "Inl CorpusFetchError" scenarioStore newSearchService]
  by (rule conjunct1)

section \<open>The index under search\<close>

text \<open>
  C10. The state that \<open>search\<close> leaves is the state that lazy initialization leaves; when the
  index is Ready it is the state before the call, entry for entry. The results of the indexed
  path carry entries of that index: a score is attached to the result that wraps a copy of the
  entry, and the stored entries have no score.
\<close>

theorem search_leaves_index_unchanged:
  "snd (search lc store q opts s) = snd (initialize store s)
   \<and> (initialized s \<longrightarrow> snd (search lc store q opts s) = s)
   \<and> (\<forall>rs. fst (search lc store q opts s) = Inr (Indexed rs) \<longrightarrow>
         entry ` set rs \<subseteq> set (mapValues (searchIndex (snd (search lc store q opts s)))))"
proof (intro conjI allI impI)
  show state: "snd (search lc store q opts s) = snd (initialize store s)"
    by (cases store) (simp_all add: search_unfold)
  show "snd (search lc store q opts s) = s" if "initialized s"
    using that state by (simp add: initialize_ready)
  show "entry ` set rs \<subseteq> set (mapValues (searchIndex (snd (search lc store q opts s))))"
    if res: "fst (search lc store q opts s) = Inr (Indexed rs)" for rs
  proof -
    let ?s = "snd (initialize store s)"
    let ?sorted = "sortResults lc (applyFilters q opts ?s) (sortBy opts) q"
    have "rs = slice0 ?sorted (limit opts)"
      using res by (cases store) (simp_all add: search_unfold split: if_splits)
    then have "set rs \<subseteq> set (applyFilters q opts ?s)"
      using set_slice0 [of ?sorted "limit opts"] by (simp add: set_sortResults)
    then have "entry ` set rs \<subseteq> entry ` set (applyFilters q opts ?s)"
      by (rule image_mono)
    also have "\<dots> \<subseteq> set (mapValues (searchIndex ?s))"
      by (rule entries_applyFilters)
    finally show ?thesis
      by (simp add: state)
  qed
qed

theorem search_leaves_index_unchanged_witness:
  "initialized (snd (initialize scenarioStore newSearchService))
   \<and> snd (search codeUnitCompare scenarioStore (Some ''concurrency'') defaultOptions
            (snd (initialize scenarioStore newSearchService)))
       = snd (initialize scenarioStore newSearchService)
   \<and> fst (search codeUnitCompare scenarioStore (Some ''concurrency'') defaultOptions
            (snd (initialize scenarioStore newSearchService)))
       = Inr (Indexed [\<lparr>entry = indexEntry scenarioNote1, score = Some 7\<rparr>])
   \<and> entry ` set [\<lparr>entry = indexEntry scenarioNote1, score = Some 7\<rparr>]
       \<subseteq> set (mapValues (searchIndex (snd (search codeUnitCompare scenarioStore
              (Some ''concurrency'') defaultOptions
              (snd (initialize scenarioStore newSearchService))))))"
proof -
  let ?s = "snd (initialize scenarioStore newSearchService)"
  have ready: "initialized ?s"
    by (rule initialized_initialize)
  have res: "fst (search codeUnitCompare scenarioStore (Some ''concurrency'') defaultOptions ?s)
               = Inr (Indexed [\<lparr>entry = indexEntry scenarioNote1, score = Some 7\<rparr>])"
    by code_simp
  show ?thesis
    using search_leaves_index_unchanged
            [of codeUnitCompare scenarioStore "Some ''concurrency''" defaultOptions ?s]
          ready res
    by blast
qed


section \<open>Ties under the sort\<close>

text \<open>
  C6, as stated, fails. Two notes with the same updated timestamp, searched with a text query
  in sort mode "date": the note inserted second has the higher score and comes first in the
  result, although the index holds it second.
\<close>

theorem date_tie_follows_score_counterexample:
  "fst (search codeUnitCompare tieStore (Some ''rust'') (defaultOptions\<lparr>sortBy := ''date''\<rparr>)
          newSearchService)
     = Inr (Indexed [\<lparr>entry = indexEntry tieNoteB, score = Some 19\<rparr>,
                     \<lparr>entry = indexEntry tieNoteA, score = Some 7\<rparr>])
   \<and> map fst (searchIndex (snd (search codeUnitCompare tieStore (Some ''rust'')
                                   (defaultOptions\<lparr>sortBy := ''date''\<rparr>) newSearchService)))
     = [note_id tieNoteA, note_id tieNoteB]
   \<and> updated_at tieNoteA = updated_at tieNoteB"
  by code_simp

text \<open>
  C6, amended. In every sort mode the entries that compare equal under the mode's key keep the
  order in which they reach the sort. Without a text query they reach it in the index's
  insertion order (the structured filters only drop entries). With a text query they reach it
  in the order \<open>filterByQuery\<close> leaves: by descending score, and in insertion order among
  equal scores. So in relevance mode ties are in insertion order, and in the modes "date"
  and "title" with a text query ties are ordered by descending score first. The collation
  is assumed to compare as some key into a linear order does.
\<close>

theorem ties_keep_order_of_arrival:
  fixes collate :: "string \<Rightarrow> 'k::linorder"
  assumes "\<forall>a b. lc a b \<le> 0 \<longleftrightarrow> collate a \<le> collate b"
  shows
    "(let s' = snd (initialize store s);
          scored = filterByQuery (indexValues s') (queryString q);
          arrival = applyFilters q opts s';
          out = sortResults lc arrival (sortBy opts) q
      in (\<not> noCriteria q opts \<longrightarrow>
            fst (search lc store q opts s) = Inr (Indexed (slice0 out (limit opts))))
       \<and> (sortBy opts = ''date'' \<longrightarrow>
            keepsTieOrder (\<lambda>r. updated_at (noteOf (entry r))) arrival out)
       \<and> (sortBy opts = ''title'' \<longrightarrow>
            keepsTieOrder (\<lambda>r. collate (title (noteOf (entry r)))) arrival out)
       \<and> (sortBy opts \<noteq> ''date'' \<and> sortBy opts \<noteq> ''title'' \<and> truthyStr q \<longrightarrow>
            keepsTieOrder score arrival out)
       \<and> (sortBy opts \<noteq> ''date'' \<and> sortBy opts \<noteq> ''title'' \<and> \<not> truthyStr q \<longrightarrow>
            keepsTieOrder (\<lambda>r. updated_at (noteOf (entry r))) arrival out)
       \<and> (\<not> truthyStr q \<longrightarrow>
            arrival = filter (\<lambda>r. matchesFilters opts (entry r)) (indexValues s'))
       \<and> (truthyStr q \<longrightarrow>
            arrival = filter (\<lambda>r. matchesFilters opts (entry r)) scored
            \<and> sorted_wrt (\<lambda>a b. scoreOf b \<le> scoreOf a) scored
            \<and> keepsTieOrder score (specScored (indexValues s') (queryString q)) scored))"
proof -
  define s' where "s' = snd (initialize store s)"
  define scored where "scored = filterByQuery (indexValues s') (queryString q)"
  define arrival where "arrival = applyFilters q opts s'"
  define out where "out = sortResults lc arrival (sortBy opts) q"
  have result: "fst (search lc store q opts s) = Inr (Indexed (slice0 out (limit opts)))"
    if "\<not> noCriteria q opts"
    using that by (simp add: search_unfold out_def arrival_def s'_def)
  have date: "keepsTieOrder (\<lambda>r. updated_at (noteOf (entry r))) arrival out"
    if "sortBy opts = ''date''"
    using that by (simp add: out_def sortResults_def jsSort_compareDate_ties)
  have title: "keepsTieOrder (\<lambda>r. collate (title (noteOf (entry r)))) arrival out"
    if "sortBy opts = ''title''"
    using that by (simp add: out_def sortResults_def jsSort_compareTitle_ties [OF assms])
  have relevance: "keepsTieOrder score arrival out"
    if mode: "sortBy opts \<noteq> ''date''" "sortBy opts \<noteq> ''title''" and q: "truthyStr q"
  proof (cases arrival)
    case Nil
    then show ?thesis
      by (simp add: out_def sortResults_Nil keepsTieOrder_def)
  next
    case (Cons r rs)
    have all: "\<forall>x\<in>set arrival. score x \<noteq> None"
      unfolding arrival_def by (rule applyFilters_scored [OF q])
    with Cons have "score r \<noteq> None"
      by simp
    with Cons mode q have "out = jsSort compareScore arrival"
      by (simp add: out_def sortResults_def)
    with all show ?thesis
      by (simp add: jsSort_compareScore_ties)
  qed
  have fallback: "keepsTieOrder (\<lambda>r. updated_at (noteOf (entry r))) arrival out"
    if "sortBy opts \<noteq> ''date''" "sortBy opts \<noteq> ''title''" "\<not> truthyStr q"
    using that by (simp add: out_def sortResults_def jsSort_compareDate_ties)
  have plain: "arrival = filter (\<lambda>r. matchesFilters opts (entry r)) (indexValues s')"
    if "\<not> truthyStr q"
    using that by (simp add: arrival_def applyFilters_matches)
  have queried: "arrival = filter (\<lambda>r. matchesFilters opts (entry r)) scored"
    if "truthyStr q"
    using that by (simp add: arrival_def scored_def applyFilters_matches)
  have scored_eq: "scored = jsSort compareScore (specScored (indexValues s') (queryString q))"
    by (simp add: scored_def filterByQuery_def scoring_stage_spec)
  have descending: "sorted_wrt (\<lambda>a b. scoreOf b \<le> scoreOf a) scored"
    unfolding scored_eq by (rule jsSort_compareScore_descending) (rule scored_all)
  have insertion: "keepsTieOrder score (specScored (indexValues s') (queryString q)) scored"
    unfolding scored_eq by (rule jsSort_compareScore_ties) (rule scored_all)
  show ?thesis
    unfolding Let_def s'_def [symmetric] scored_def [symmetric] arrival_def [symmetric]
      out_def [symmetric]
    using result date title relevance fallback plain queried descending insertion
    by blast
qed

theorem ties_keep_order_of_arrival_witness:
  "(\<forall>a b. codeUnitCompare a b \<le> 0 \<longleftrightarrow> codeUnits a \<le> codeUnits b)
   \<and> \<not> noCriteria (Some ''rust'') (defaultOptions\<lparr>sortBy := ''date''\<rparr>)
   \<and> sortBy (defaultOptions\<lparr>sortBy := ''date''\<rparr>) = ''date''
   \<and> truthyStr (Some ''rust'')
   \<and> keepsTieOrder (\<lambda>r. updated_at (noteOf (entry r)))
        (applyFilters (Some ''rust'') (defaultOptions\<lparr>sortBy := ''date''\<rparr>)
           (snd (initialize tieStore newSearchService)))
        (sortResults codeUnitCompare
           (applyFilters (Some ''rust'') (defaultOptions\<lparr>sortBy := ''date''\<rparr>)
              (snd (initialize tieStore newSearchService)))
           (sortBy (defaultOptions\<lparr>sortBy := ''date''\<rparr>)) (Some ''rust''))
   \<and> sorted_wrt (\<lambda>a b. scoreOf b \<le> scoreOf a)
        (filterByQuery (indexValues (snd (initialize tieStore newSearchService)))
           (queryString (Some ''rust'')))"
proof -
  have key: "\<forall>a b. codeUnitCompare a b \<le> 0 \<longleftrightarrow> codeUnits a \<le> codeUnits b"
    by (simp add: codeUnitCompare_key)
  have pre: "\<not> noCriteria (Some ''rust'') (defaultOptions\<lparr>sortBy := ''date''\<rparr>)"
    "sortBy (defaultOptions\<lparr>sortBy := ''date''\<rparr>) = ''date''"
    "truthyStr (Some ''rust'')"
    by (simp_all add: noCriteria_def truthyStr_def defaultOptions_def)
  show ?thesis
    using ties_keep_order_of_arrival
            [OF key, of tieStore newSearchService "Some ''rust''"
               "defaultOptions\<lparr>sortBy := ''date''\<rparr>", unfolded Let_def]
          key pre
    by blast
qed

section \<open>Malformed options\<close>

text \<open>
  C7, as stated, fails. With an unparseable start bound the search returns normally, with an
  empty result; with the limit -1 it returns normally, with the sorted results short of the
  last one (here the first of two).
\<close>

theorem malformed_options_no_error_counterexample:
  "fst (search codeUnitCompare scenarioStore (Some ''o'')
          (defaultOptions\<lparr>dateRange := Some \<lparr>range_start = None, range_end = Some 6000\<rparr>\<rparr>)
          newSearchService)
     = Inr (Indexed [])
   \<and> fst (search codeUnitCompare scenarioStore (Some ''o'') (defaultOptions\<lparr>limit := - 1\<rparr>)
            newSearchService)
     = Inr (Indexed [\<lparr>entry = indexEntry scenarioNote1, score = Some 19\<rparr>])
   \<and> fst (search codeUnitCompare scenarioStore (Some ''o'') defaultOptions newSearchService)
     = Inr (Indexed [\<lparr>entry = indexEntry scenarioNote1, score = Some 19\<rparr>,
                     \<lparr>entry = indexEntry scenarioNote2, score = Some 19\<rparr>])"
  by code_simp

text \<open>
  C7, amended. \<open>search\<close> does not validate its options and does not fail on them. Whenever a
  query or one of category, tags and favorite is set, it returns the sorted results cut by
  \<open>slice(0, limit)\<close>: with a date range whose start or end is unparseable the date filter
  rejects every entry and the result is empty; with a negative limit the result is the sorted
  list without its last \<open>-limit\<close> entries.
\<close>

theorem search_accepts_malformed_options:
  assumes "\<not> noCriteria q opts"
  shows
    "(let s' = snd (initialize store s);
          out = sortResults lc (applyFilters q opts s') (sortBy opts) q
      in fst (search lc store q opts s) = Inr (Indexed (slice0 out (limit opts)))
       \<and> (\<forall>dr. dateRange opts = Some dr \<and> (range_start dr = None \<or> range_end dr = None) \<longrightarrow>
             fst (search lc store q opts s) = Inr (Indexed []))
       \<and> (limit opts < 0 \<longrightarrow>
             fst (search lc store q opts s)
               = Inr (Indexed (take (length out - nat (- limit opts)) out))))"
proof -
  define s' where "s' = snd (initialize store s)"
  define out where "out = sortResults lc (applyFilters q opts s') (sortBy opts) q"
  have result: "fst (search lc store q opts s) = Inr (Indexed (slice0 out (limit opts)))"
    using assms by (simp add: search_unfold out_def s'_def)
  have empty: "fst (search lc store q opts s) = Inr (Indexed [])"
    if "dateRange opts = Some dr" "range_start dr = None \<or> range_end dr = None" for dr
  proof -
    have "out = []"
      by (simp add: out_def date_filter_rejects_unparseable [OF that] sortResults_Nil)
    then show ?thesis
      by (simp add: result slice0_def)
  qed
  have negative: "fst (search lc store q opts s)
                    = Inr (Indexed (take (length out - nat (- limit opts)) out))"
    if "limit opts < 0"
    using that by (simp add: result slice0_negative)
  show ?thesis
    unfolding Let_def s'_def [symmetric] out_def [symmetric]
    using result empty negative by blast
qed

theorem search_accepts_malformed_options_witness:
  "\<not> noCriteria (Some ''o'')
       (defaultOptions\<lparr>dateRange := Some \<lparr>range_start = None, range_end = Some 6000\<rparr>,
                        limit := - 1\<rparr>)
   \<and> dateRange (defaultOptions\<lparr>dateRange := Some \<lparr>range_start = None, range_end = Some 6000\<rparr>,
                                limit := - 1\<rparr>)
       = Some \<lparr>range_start = None, range_end = Some 6000\<rparr>
   \<and> range_start \<lparr>range_start = None, range_end = Some 6000\<rparr> = None
   \<and> limit (defaultOptions\<lparr>dateRange := Some \<lparr>range_start = None, range_end = Some 6000\<rparr>,
                            limit := - 1\<rparr>) < 0
   \<and> fst (search codeUnitCompare scenarioStore (Some ''o'')
            (defaultOptions\<lparr>dateRange := Some \<lparr>range_start = None, range_end = Some 6000\<rparr>,
                             limit := - 1\<rparr>)
            newSearchService)
       = Inr (Indexed [])"
proof -
  let ?opts = "defaultOptions\<lparr>dateRange := Some \<lparr>range_start = None, range_end = Some 6000\<rparr>,
                              limit := - 1\<rparr>"
  have pre: "\<not> noCriteria (Some ''o'') ?opts"
    by (simp add: noCriteria_def truthyStr_def)
  have opts: "dateRange ?opts = Some \<lparr>range_start = None, range_end = Some 6000\<rparr>"
    "limit ?opts < 0"
    by (simp_all add: defaultOptions_def)
  have bound: "range_start \<lparr>range_start = None, range_end = Some 6000\<rparr> = None"
    by simp
  have "\<forall>dr. dateRange ?opts = Some dr \<and> (range_start dr = None \<or> range_end dr = None) \<longrightarrow>
          fst (search codeUnitCompare scenarioStore (Some ''o'') ?opts newSearchService)
            = Inr (Indexed [])"
    using search_accepts_malformed_options
            [where lc = codeUnitCompare and store = scenarioStore and s = newSearchService,
             OF pre, unfolded Let_def]
    by blast
  with opts(1) bound
  have "fst (search codeUnitCompare scenarioStore (Some ''o'') ?opts newSearchService)
          = Inr (Indexed [])"
    by blast
  with pre opts bound show ?thesis
    by blast
qed


section \<open>Suggestions\<close>

lemma fold_setAdd_filter:
  "fold (\<lambda>x acc. if P (g x) then setAdd (g x) acc else acc) xs acc
     = fold setAdd (filter P (map g xs)) acc"
  by (induction xs arbitrary: acc) simp_all

lemma fold_suggestTitle:
  "fold (suggestTitle ql) es acc
     = fold setAdd (filter (\<lambda>x. includesStr (toLowerCase x) ql) (map (\<lambda>e. title (noteOf e)) es)) acc"
  using fold_setAdd_filter [of "\<lambda>x. includesStr (toLowerCase x) ql" "\<lambda>e. title (noteOf e)" es acc]
  by (simp add: suggestTitle_def [abs_def])

lemma suggestTags_fold:
  "suggestTags ql e acc
     = fold setAdd (filter (\<lambda>x. includesStr (toLowerCase x) ql)
                      (case tags (noteOf e) of None \<Rightarrow> [] | Some ts \<Rightarrow> map name ts)) acc"
  by (cases "tags (noteOf e)")
     (simp_all add: suggestTags_def
        fold_setAdd_filter [where P = "\<lambda>x. includesStr (toLowerCase x) ql" and g = name])

lemma fold_suggestTags:
  "fold (suggestTags ql) es acc
     = fold setAdd (filter (\<lambda>x. includesStr (toLowerCase x) ql)
                      (concat (map (\<lambda>e. case tags (noteOf e) of None \<Rightarrow> [] | Some ts \<Rightarrow> map name ts) es)))
         acc"
  by (induction es arbitrary: acc) (simp_all add: suggestTags_fold)

lemma suggestCategory_fold:
  assumes "ql \<noteq> []"
  shows "suggestCategory ql e acc
     = fold setAdd (filter (\<lambda>x. includesStr (toLowerCase x) ql)
                      (case category_name (noteOf e) of None \<Rightarrow> [] | Some c \<Rightarrow> [c])) acc"
  using assms by (auto simp: suggestCategory_def toLowerCase_def split: option.splits)

lemma fold_suggestCategory:
  assumes "ql \<noteq> []"
  shows "fold (suggestCategory ql) es acc
     = fold setAdd (filter (\<lambda>x. includesStr (toLowerCase x) ql)
                      (concat (map (\<lambda>e. case category_name (noteOf e) of None \<Rightarrow> [] | Some c \<Rightarrow> [c]) es)))
         acc"
  by (induction es arbitrary: acc) (simp_all add: suggestCategory_fold [OF assms])

lemma fold_setAdd_firstOccurrences: "fold setAdd xs [] = firstOccurrences xs"
proof (induction xs rule: rev_induct)
  case Nil
  show ?case by (simp add: firstOccurrences_def)
next
  case (snoc x xs)
  have "set (firstOccurrences xs) = set xs"
    by (simp add: firstOccurrences_def)
  with snoc show ?case
    by (simp add: setAdd_def firstOccurrences_def)
qed

lemma collectSuggestions_spec:
  "ql \<noteq> [] \<Longrightarrow> collectSuggestions ql es = firstOccurrences (suggestionCandidates ql es)"
  by (simp add: collectSuggestions_def fold_suggestTitle fold_suggestTags fold_suggestCategory
        suggestionCandidates_def fold_setAdd_firstOccurrences [symmetric])

lemma distinct_firstOccurrences: "distinct (firstOccurrences xs)"
  by (simp add: firstOccurrences_def)

lemma set_firstOccurrences: "set (firstOccurrences xs) = set xs"
  by (simp add: firstOccurrences_def)

lemma candidates_contain_query:
  "x \<in> set (suggestionCandidates ql es) \<Longrightarrow> includesStr (toLowerCase x) ql"
  by (auto simp: suggestionCandidates_def)

lemma distinct_slice0: "distinct xs \<Longrightarrow> distinct (slice0 xs n)"
  by (simp add: slice0_def)

text \<open>
  C5. A query of fewer than 2 characters (an absent one included) gets the empty sequence.
  A query of 2 or more characters gets \<open>slice(0, k)\<close> of the candidates without repetitions,
  where the candidates are the matching titles, then the matching tag names, then the matching
  category names of the index after lazy initialization. The strings returned are pairwise
  distinct, and each contains the lower-cased query once lower-cased itself. For a limit
  \<open>k\<close> that is a count (not negative) the slice is the first \<open>k\<close> candidates, so at most
  \<open>k\<close> strings are returned.
\<close>

theorem suggestions_as_specified:
  "(length (queryString q) < 2 \<longrightarrow> fst (getSearchSuggestions store q k s) = Inr [])
   \<and> (2 \<le> length (queryString q) \<longrightarrow>
        (let ql = toLowerCase (queryString q);
             es = mapValues (searchIndex (snd (initialize store s)));
             out = slice0 (firstOccurrences (suggestionCandidates ql es)) k
         in fst (getSearchSuggestions store q k s) = Inr out
          \<and> (0 \<le> k \<longrightarrow>
                out = take (nat k) (firstOccurrences (suggestionCandidates ql es))
                \<and> int (length out) \<le> k)
          \<and> distinct out
          \<and> (\<forall>x\<in>set out. includesStr (toLowerCase x) ql)))"
proof -
  obtain s' where s': "initialize store s = (Inr (), s')"
    using initialize_split by blast
  define ql where "ql = toLowerCase (queryString q)"
  define out where
    "out = slice0 (firstOccurrences (suggestionCandidates ql (mapValues (searchIndex s')))) k"
  have short: "fst (getSearchSuggestions store q k s) = Inr []" if "length (queryString q) < 2"
    using that s' by (simp add: getSearchSuggestions_def)
  have long: "fst (getSearchSuggestions store q k s) = Inr out" if len: "2 \<le> length (queryString q)"
  proof -
    from len have "queryString q \<noteq> []"
      by auto
    then have truthy: "truthyStr q" and ql: "ql \<noteq> []"
      by (auto simp: truthyStr_def queryString_def ql_def toLowerCase_def split: option.splits)
    from len truthy s' show ?thesis
      by (simp add: getSearchSuggestions_def out_def ql_def [symmetric]
            collectSuggestions_spec [OF ql])
  qed
  have count: "out = take (nat k) (firstOccurrences (suggestionCandidates ql (mapValues (searchIndex s'))))
               \<and> int (length out) \<le> k" if "0 \<le> k"
    using that by (simp add: out_def slice0_def)
  have dist: "distinct out"
    by (simp add: out_def distinct_slice0 distinct_firstOccurrences)
  have match: "\<forall>x\<in>set out. includesStr (toLowerCase x) ql"
    using set_slice0 [of "firstOccurrences (suggestionCandidates ql (mapValues (searchIndex s')))" k]
    by (auto simp: out_def set_firstOccurrences dest!: candidates_contain_query)
  have init: "snd (initialize store s) = s'"
    using s' by simp
  show ?thesis
    unfolding Let_def ql_def [symmetric] init out_def [symmetric]
    using short long count dist match
    by blast
qed

theorem suggestions_as_specified_witness:
  "(0::int) \<le> 5
   \<and> 2 \<le> length (queryString (Some ''sT''))
   \<and> fst (getSearchSuggestions scenarioStore (Some ''sT'') 5 newSearchService)
       = Inr [''Rust Ownership'', ''systems'']
   \<and> length (queryString (Some ''s'')) < 2
   \<and> fst (getSearchSuggestions scenarioStore (Some ''s'') 5 newSearchService) = Inr []"
proof -
  have k: "(0::int) \<le> 5"
    by simp
  have len: "2 \<le> length (queryString (Some ''sT''))" "length (queryString (Some ''s'')) < 2"
    by (simp_all add: queryString_def)
  have out: "slice0
               (firstOccurrences
                 (suggestionCandidates (toLowerCase (queryString (Some ''sT'')))
                   (mapValues (searchIndex (snd (initialize scenarioStore newSearchService))))))
               5
             = [''Rust Ownership'', ''systems'']"
    by code_simp
  have "fst (getSearchSuggestions scenarioStore (Some ''sT'') 5 newSearchService)
          = Inr [''Rust Ownership'', ''systems'']"
    using suggestions_as_specified [of "Some ''sT''" scenarioStore 5 newSearchService,
            unfolded Let_def] len(1)
    by (simp only: out)
  moreover have "fst (getSearchSuggestions scenarioStore (Some ''s'') 5 newSearchService) = Inr []"
    using suggestions_as_specified [of "Some ''s''" scenarioStore 5 newSearchService] len(2)
    by blast
  ultimately show ?thesis
    using k len by blast
qed

end
